theory Spec2Isabelle
  imports Complex_Main "HOL-Library.Word" "HOL-Library.Signed_Division"
begin

section \<open>Data model of the ADUVC driver\<close>

text \<open>
  The driver is one C++ class, \<^verbatim>\<open>ADUVC\<close> (\<^verbatim>\<open>adUVCApp/src/ADUVC.cpp\<close>), on top of
  two external libraries: libuvc (the camera) and asyn/areaDetector (the parameter
  table and the base class \<^verbatim>\<open>ADDriver\<close>). The embedding keeps the driver's own fields
  and statements and replaces each library by the least that the driver observes:
  \<^item> a C \<^verbatim>\<open>int\<close> / \<^verbatim>\<open>epicsInt32\<close> is a 32-bit word, read as two's complement by \<open>sint\<close>;
    \<open>+\<close> wraps around;
  \<^item> \<^verbatim>\<open>uvc_error_t\<close> and \<^verbatim>\<open>asynStatus\<close> are enums with small values, kept as \<open>int\<close>
    (0 is success, a libuvc error is negative);
  \<^item> the integer parameter table of asyn is a table from parameter number to value;
  \<^item> each libuvc call is appended to a trace, its status comes from the environment
    (a scripted camera), and it acquires its resource exactly when that status is
    not negative.
\<close>

type_synonym int32 = "32 word"
type_synonym uvc_error_t = int
type_synonym asynStatus = int

definition asynSuccess :: asynStatus where
  "asynSuccess = 0"

definition ADStatusIdle :: int32 where
  "ADStatusIdle = 0"

datatype uvc_frame_format =
    UVC_FRAME_FORMAT_UNKNOWN
  | UVC_FRAME_FORMAT_UNCOMPRESSED
  | UVC_FRAME_FORMAT_COMPRESSED
  | UVC_FRAME_FORMAT_YUYV
  | UVC_FRAME_FORMAT_MJPEG

datatype uvc_call =
    Uvc_init
  | Uvc_find_device int32
  | Uvc_open
  | Uvc_get_stream_ctrl_format_size uvc_frame_format int int int
  | Uvc_start_streaming
  | Uvc_stop_streaming

text \<open>A frame as libuvc hands it to the callback, and an image buffer of areaDetector.\<close>

record uvc_frame =
  frame_data :: "8 word list"
  frame_width :: nat
  frame_height :: nat
  frame_format :: uvc_frame_format
  frame_sequence :: nat
  frame_capture_time :: nat

record ndarray =
  nd_dims :: "nat list"
  nd_dataType :: int32
  nd_timeStamp :: nat
  nd_uniqueId :: nat
  nd_data :: "8 word list"

text \<open>
  What the driver prints at error level: \<^verbatim>\<open>reportUVCError\<close> prints a libuvc status with
  the name of the function it arose in; \<^verbatim>\<open>writeInt32\<close> ends by printing its local
  \<^verbatim>\<open>status\<close> with the function code and the value when that status is not 0.
\<close>

datatype error_print =
    UVC_Error uvc_error_t string
  | Write_Error asynStatus int int32

text \<open>
  The state of one driver object together with the file-level flag \<^verbatim>\<open>moving\<close>.
  \<open>pdeviceContext_held\<close>, \<open>pdevice_held\<close> and \<open>pdeviceHandle_held\<close> say whether the
  pointer of that name owns a libuvc resource; \<open>clock\<close> counts the seconds slept;
  \<open>lock_depth\<close> counts \<^verbatim>\<open>lock()\<close> calls on the port mutex; \<open>delivered\<close> lists the image
  buffers handed to the consumer.
\<close>

record driver =
  params :: "int \<Rightarrow> int32"
  moving :: int32
  deviceStatus :: uvc_error_t
  pdeviceContext_held :: bool
  pdevice_held :: bool
  pdeviceHandle_held :: bool
  streaming :: bool
  uvc_calls :: "uvc_call list"
  reported :: "error_print list"
  clock :: nat
  lock_depth :: nat
  delivered :: "ndarray list"

text \<open>
  The parameter numbers are assigned at run time by \<^verbatim>\<open>createParam\<close> and declared in
  headers that are not part of the source file (\<^verbatim>\<open>ADDriver.h\<close>, \<^verbatim>\<open>ADUVC.h\<close>); the
  model takes them as a parameter.
\<close>

record param_ids =
  ADAcquire :: int
  ADStatus :: int
  ADNumImages :: int
  ADNumImagesCounter :: int
  NDDataType :: int
  ADUVC_OperatingMode :: int
  ADUVC_Framerate :: int
  ADUVC_FIRST_PARAM :: int

text \<open>
  The environment: the status each libuvc call returns, the seconds at which another
  thread calls \<^verbatim>\<open>acquireStop\<close> while the timer sleeps (\<open>external_stop env k\<close> holds
  when that happens during the sleep that starts at second \<open>k\<close>), the values a caller
  reads from a function that ends without a \<^verbatim>\<open>return\<close> statement (\<open>indeterminate\<close> for
  the libuvc status that \<^verbatim>\<open>writeInt32\<close> reads from \<^verbatim>\<open>acquireStart\<close> and
  \<^verbatim>\<open>acquireStop\<close>, \<open>indeterminate_status\<close> for the status that the caller of
  \<^verbatim>\<open>writeInt32\<close> reads), and the base class method \<^verbatim>\<open>ADDriver::writeInt32\<close>.
\<close>

record environment =
  uvc_init_result :: uvc_error_t
  uvc_find_device_result :: "int32 \<Rightarrow> uvc_error_t"
  uvc_open_result :: uvc_error_t
  uvc_get_stream_ctrl_result :: "uvc_frame_format \<Rightarrow> int \<Rightarrow> int \<Rightarrow> int \<Rightarrow> uvc_error_t"
  uvc_start_streaming_result :: uvc_error_t
  external_stop :: "nat \<Rightarrow> bool"
  indeterminate :: uvc_error_t
  indeterminate_status :: asynStatus
  ADDriver_writeInt32 :: "int \<Rightarrow> int32 \<Rightarrow> driver \<Rightarrow> asynStatus \<times> driver"

datatype fault = DivideByZero | DivideOverflow

section \<open>The libraries as the driver sees them\<close>

definition setIntegerParam :: "int \<Rightarrow> int32 \<Rightarrow> driver \<Rightarrow> asynStatus \<times> driver" where
  "setIntegerParam index v s = (asynSuccess, s\<lparr>params := (params s)(index := v)\<rparr>)"

definition getIntegerParam :: "int \<Rightarrow> driver \<Rightarrow> int32" where
  "getIntegerParam index s = params s index"

definition uvc_init :: "environment \<Rightarrow> driver \<Rightarrow> uvc_error_t \<times> driver" where
  "uvc_init env s =
     (let r = uvc_init_result env in
      (r, s\<lparr>uvc_calls := uvc_calls s @ [Uvc_init],
             pdeviceContext_held := (if r < 0 then pdeviceContext_held s else True)\<rparr>))"

definition uvc_find_device :: "environment \<Rightarrow> int32 \<Rightarrow> driver \<Rightarrow> uvc_error_t \<times> driver" where
  "uvc_find_device env sn s =
     (let r = uvc_find_device_result env sn in
      (r, s\<lparr>uvc_calls := uvc_calls s @ [Uvc_find_device sn],
             pdevice_held := (if r < 0 then pdevice_held s else True)\<rparr>))"

definition uvc_open :: "environment \<Rightarrow> driver \<Rightarrow> uvc_error_t \<times> driver" where
  "uvc_open env s =
     (let r = uvc_open_result env in
      (r, s\<lparr>uvc_calls := uvc_calls s @ [Uvc_open],
             pdeviceHandle_held := (if r < 0 then pdeviceHandle_held s else True)\<rparr>))"

definition uvc_get_stream_ctrl_format_size ::
  "environment \<Rightarrow> uvc_frame_format \<Rightarrow> int \<Rightarrow> int \<Rightarrow> int \<Rightarrow> driver \<Rightarrow> uvc_error_t \<times> driver" where
  "uvc_get_stream_ctrl_format_size env fmt w h fps s =
     (uvc_get_stream_ctrl_result env fmt w h fps,
      s\<lparr>uvc_calls := uvc_calls s @ [Uvc_get_stream_ctrl_format_size fmt w h fps]\<rparr>)"

definition uvc_start_streaming :: "environment \<Rightarrow> driver \<Rightarrow> uvc_error_t \<times> driver" where
  "uvc_start_streaming env s =
     (let r = uvc_start_streaming_result env in
      (r, s\<lparr>uvc_calls := uvc_calls s @ [Uvc_start_streaming],
             streaming := (if r < 0 then streaming s else True)\<rparr>))"

definition uvc_stop_streaming :: "driver \<Rightarrow> driver" where
  "uvc_stop_streaming s = s\<lparr>uvc_calls := uvc_calls s @ [Uvc_stop_streaming], streaming := False\<rparr>"

section \<open>The driver's functions\<close>

text \<open>
  \<^verbatim>\<open>asynPrint\<close> at the trace level \<^verbatim>\<open>ASYN_TRACEIO_DRIVER\<close> and \<^verbatim>\<open>callParamCallbacks\<close>
  (notification of the clients of changed parameters) change nothing that the driver
  reads back; they have no counterpart below. What is printed at the level
  \<^verbatim>\<open>ASYN_TRACE_ERROR\<close> is kept and collected in \<open>reported\<close>: the errors of
  \<^verbatim>\<open>reportUVCError\<close> and the last print of \<^verbatim>\<open>writeInt32\<close>.
\<close>

definition reportUVCError :: "uvc_error_t \<Rightarrow> string \<Rightarrow> driver \<Rightarrow> driver" where
  "reportUVCError status functionName s =
     s\<lparr>reported := reported s @ [UVC_Error status functionName]\<rparr>"

definition connectToDeviceUVC :: "environment \<Rightarrow> int32 \<Rightarrow> driver \<Rightarrow> bool \<times> driver" where
  "connectToDeviceUVC env serialNumber s0 =
     (let (r1, s1) = uvc_init env s0;
          s1 = s1\<lparr>deviceStatus := r1\<rparr>
      in if r1 < 0 then (False, reportUVCError r1 ''connectToDeviceUVC'' s1)
      else
        let (r2, s2) = uvc_find_device env serialNumber s1;
            s2 = s2\<lparr>deviceStatus := r2\<rparr>
        in if r2 < 0 then (False, reportUVCError r2 ''connectToDeviceUVC'' s2)
        else
          let (r3, s3) = uvc_open env s2;
              s3 = s3\<lparr>deviceStatus := r3\<rparr>
          in if r3 < 0 then (False, reportUVCError r3 ''connectToDeviceUVC'' s3)
          else (True, s3))"

text \<open>
  \<^verbatim>\<open>acquireStop\<close>: clears the flag, stops the stream (a blocking libuvc call) and resets
  the status and acquire parameters.
\<close>

definition acquireStop :: "param_ids \<Rightarrow> driver \<Rightarrow> driver" where
  "acquireStop ix s0 =
     (let s1 = s0\<lparr>moving := 0\<rparr>;
          s2 = uvc_stop_streaming s1;
          s3 = snd (setIntegerParam (ADStatus ix) ADStatusIdle s2);
          s4 = snd (setIntegerParam (ADAcquire ix) 0 s3)
      in s4)"

text \<open>
  \<^verbatim>\<open>newFrameCallback\<close>: takes the port lock and reads the data type parameter into a
  local variable; the body ends there. The frame and the pointer are not read, no
  buffer is allocated and none is passed on, and the lock is not given back.
\<close>

definition newFrameCallback :: "param_ids \<Rightarrow> uvc_frame \<Rightarrow> driver \<Rightarrow> driver" where
  "newFrameCallback ix frame s0 =
     (let s1 = s0\<lparr>lock_depth := lock_depth s0 + 1\<rparr>;
          dataType = getIntegerParam (NDDataType ix) s1;
          ndDataType = dataType
      in s1)"

text \<open>
  \<^verbatim>\<open>sleep(1)\<close>: one second passes. The running flag is shared with the other threads
  of the process; the one function that clears it from outside the timer is
  \<^verbatim>\<open>acquireStop\<close>, so an external stop during this second is a run of \<^verbatim>\<open>acquireStop\<close>
  before the sleeper looks at the flag again.
\<close>

definition sleep1 :: "param_ids \<Rightarrow> environment \<Rightarrow> driver \<Rightarrow> driver" where
  "sleep1 ix env s =
     (let s' = s\<lparr>clock := clock s + 1\<rparr>
      in if external_stop env (clock s) then acquireStop ix s' else s')"

text \<open>
  C division of two \<^verbatim>\<open>int\<close>s truncates towards zero and traps on a zero divisor and
  on \<^verbatim>\<open>INT_MIN / -1\<close>.
\<close>

definition c_div :: "int32 \<Rightarrow> int32 \<Rightarrow> fault + int32" where
  "c_div a b =
     (if b = 0 then Inl DivideByZero
      else if sint a = - (2 ^ 31) \<and> sint b = - 1 then Inl DivideOverflow
      else Inr (word_of_int (sint a sdiv sint b)))"

text \<open>
  The loop of snapshot mode,
  \<^verbatim>\<open>while(moving == 1 && second_counter!=seconds){ sleep(1); second_counter = second_counter+1; }\<close>
  It ends for every bound, since the counter wraps around.
\<close>

function snapshot_loop :: "param_ids \<Rightarrow> environment \<Rightarrow> int32 \<Rightarrow> int32 \<Rightarrow> driver \<Rightarrow> driver" where
  "snapshot_loop ix env seconds second_counter s =
     (if moving s = 1 \<and> second_counter \<noteq> seconds
      then snapshot_loop ix env seconds (second_counter + 1) (sleep1 ix env s)
      else s)"
  by pat_completeness auto
termination
proof (relation "measure (\<lambda>(ix, env, seconds, second_counter, s). unat (seconds - second_counter))")
  show "wf (measure (\<lambda>(ix, env, seconds, second_counter, s). unat (seconds - second_counter)))"
    by simp
next
  fix ix :: param_ids and env :: environment and seconds second_counter :: int32 and s :: driver
  assume "moving s = 1 \<and> second_counter \<noteq> seconds"
  then have nz: "seconds - second_counter \<noteq> 0"
    by auto
  have eq: "seconds - (second_counter + 1) = (seconds - second_counter) - 1"
    by simp
  have "unat ((seconds - second_counter) - 1) = unat (seconds - second_counter) - 1"
    using nz by (rule unat_minus_one)
  moreover have "0 < unat (seconds - second_counter)"
    using nz by (simp add: unat_gt_0)
  ultimately have "unat (seconds - (second_counter + 1)) < unat (seconds - second_counter)"
    unfolding eq by simp
  then show "((ix, env, seconds, second_counter + 1, sleep1 ix env s),
                    (ix, env, seconds, second_counter, s))
        \<in> measure (\<lambda>(ix, env, seconds, second_counter, s). unat (seconds - second_counter))"
    by simp
qed

text \<open>
  The loop of continuous mode, \<^verbatim>\<open>while(moving == 1){ sleep(1); }\<close>. It may run for
  ever: \<open>None\<close> is the run that does not come back.
\<close>

partial_function (option) continuous_loop :: "param_ids \<Rightarrow> environment \<Rightarrow> driver \<Rightarrow> driver option" where
  "continuous_loop ix env s =
     (if moving s = 1 then continuous_loop ix env (sleep1 ix env s) else Some s)"

declare continuous_loop.simps [code]

text \<open>
  \<^verbatim>\<open>imageHandlerThread\<close>, the timer of a session. The source declares the local
  \<^verbatim>\<open>framrate\<close> and then writes \<^verbatim>\<open>framerate\<close>, and writes the snapshot test as
  \<^verbatim>\<open>operting mode == 1\<close>; both are read as the names the rest of the function uses
  (\<^verbatim>\<open>framerate\<close>, \<^verbatim>\<open>operatingMode == 1\<close>). The flag \<^verbatim>\<open>moving\<close> is declared
  \<^verbatim>\<open>static const int\<close> and assigned all the same; it is an ordinary shared variable
  here. A mode outside 0, 1, 2 falls through to the last assignment.
\<close>

definition imageHandlerThread :: "param_ids \<Rightarrow> environment \<Rightarrow> driver \<Rightarrow> (fault + driver) option" where
  "imageHandlerThread ix env s =
     (let operatingMode = getIntegerParam (ADUVC_OperatingMode ix) s;
          framerate = getIntegerParam (ADUVC_Framerate ix) s;
          numFrames = getIntegerParam (ADNumImages ix) s
      in
      if operatingMode = 0 then
        Some (Inr ((sleep1 ix env s)\<lparr>moving := 0\<rparr>))
      else if operatingMode = 1 then
        (case c_div numFrames framerate of
           Inl f \<Rightarrow> Some (Inl f)
         | Inr q \<Rightarrow>
             let seconds = q;
                 seconds = seconds + 1;
                 second_counter = 0
             in Some (Inr ((snapshot_loop ix env seconds second_counter s)\<lparr>moving := 0\<rparr>)))
      else if operatingMode = 2 then
        (case continuous_loop ix env s of
           None \<Rightarrow> None
         | Some s' \<Rightarrow> Some (Inr (s'\<lparr>moving := 0\<rparr>)))
      else Some (Inr (s\<lparr>moving := 0\<rparr>)))"

text \<open>
  \<^verbatim>\<open>acquireStart\<close>. The two failure branches return the libuvc status; the success
  branch runs the timer and then reaches the end of the function without a
  \<^verbatim>\<open>return\<close>, so the caller reads an indeterminate value.
\<close>

definition acquireStart :: "param_ids \<Rightarrow> environment \<Rightarrow> driver \<Rightarrow> (fault + uvc_error_t \<times> driver) option" where
  "acquireStart ix env s0 =
     (let (r1, s1) = uvc_get_stream_ctrl_format_size env UVC_FRAME_FORMAT_MJPEG 640 480 30 s0;
          s1 = s1\<lparr>deviceStatus := r1\<rparr>
      in
      if r1 < 0 then Some (Inr (r1, snd (setIntegerParam (ADAcquire ix) 0 s1)))
      else
        let s2 = snd (setIntegerParam (ADNumImagesCounter ix) 0 s1);
            (r2, s3) = uvc_start_streaming env s2;
            s3 = s3\<lparr>deviceStatus := r2\<rparr>
        in
        if r2 < 0 then Some (Inr (r2, snd (setIntegerParam (ADAcquire ix) 0 s3)))
        else
          (case imageHandlerThread ix env (s3\<lparr>moving := 1\<rparr>) of
             None \<Rightarrow> None
           | Some (Inl f) \<Rightarrow> Some (Inl f)
           | Some (Inr s4) \<Rightarrow> Some (Inr (indeterminate env, s4))))"

text \<open>
  The end of \<^verbatim>\<open>writeInt32\<close>:
  \<^verbatim>\<open>if(status){ asynPrint(..., ASYN_TRACE_ERROR, ...) } else asynPrint(..., ASYN_TRACEIO_DRIVER, ...)\<close>
\<close>

definition asynPrint_status :: "asynStatus \<Rightarrow> int \<Rightarrow> int32 \<Rightarrow> driver \<Rightarrow> driver" where
  "asynPrint_status status reason val s =
     (if status \<noteq> 0 then s\<lparr>reported := reported s @ [Write_Error status reason val]\<rparr> else s)"

text \<open>
  \<^verbatim>\<open>writeInt32\<close>; \<open>reason\<close> is \<^verbatim>\<open>pasynUser->reason\<close>, which the source copies into
  its local \<^verbatim>\<open>function\<close>, and \<open>val\<close> is \<^verbatim>\<open>value\<close>. The two tests on the acquire
  parameter follow one another in the source; they read the same two locals and
  exclude each other, so they are one chain here. \<^verbatim>\<open>acquireStop\<close> is a \<^verbatim>\<open>void\<close>
  function whose result the source assigns to \<^verbatim>\<open>deviceStatus\<close>: an indeterminate
  value again. The chain leaves the local \<^verbatim>\<open>status\<close> and the state; the function then
  prints according to \<^verbatim>\<open>status\<close> and reaches its end without a \<^verbatim>\<open>return\<close>, so the
  status its caller reads is indeterminate as well.
\<close>

definition writeInt32 ::
  "param_ids \<Rightarrow> environment \<Rightarrow> int \<Rightarrow> int32 \<Rightarrow> driver \<Rightarrow> (fault + asynStatus \<times> driver) option" where
  "writeInt32 ix env reason val s0 =
     (let acquiring = getIntegerParam (ADAcquire ix) s0;
          (status, s1) = setIntegerParam reason val s0;
          dispatched =
            (if reason = ADAcquire ix then
               (if val \<noteq> 0 \<and> acquiring = 0 then
                  (case acquireStart ix env s1 of
                     None \<Rightarrow> None
                   | Some (Inl f) \<Rightarrow> Some (Inl f)
                   | Some (Inr (r, s2)) \<Rightarrow>
                       let s3 = s2\<lparr>deviceStatus := r\<rparr>
                       in Some (Inr (status, if r < 0 then reportUVCError r ''writeInt32'' s3 else s3)))
                else if val = 0 \<and> acquiring \<noteq> 0 then
                  (let s2 = acquireStop ix s1;
                       r = indeterminate env;
                       s3 = s2\<lparr>deviceStatus := r\<rparr>
                   in Some (Inr (status, if r < 0 then reportUVCError r ''writeInt32'' s3 else s3)))
                else Some (Inr (status, s1)))
             else if reason < ADUVC_FIRST_PARAM ix then
               Some (Inr (ADDriver_writeInt32 env reason val s1))
             else Some (Inr (status, s1)))
      in case dispatched of
           None \<Rightarrow> None
         | Some (Inl f) \<Rightarrow> Some (Inl f)
         | Some (Inr (status, s4)) \<Rightarrow>
             Some (Inr (indeterminate_status env, asynPrint_status status reason val s4)))"

section \<open>What the specification says, and inputs to run the driver on\<close>

text \<open>
  The specification's snapshot duration, \<^verbatim>\<open>ceil(n / frameRate) + 1\<close> seconds, written
  from its words for comparison with what the timer does.
\<close>

definition spec_snapshot_duration :: "int \<Rightarrow> int \<Rightarrow> nat" where
  "spec_snapshot_duration n r = nat \<lceil>real_of_int n / real_of_int r\<rceil> + 1"

text \<open>No libuvc resource is held.\<close>

definition no_resource_held :: "driver \<Rightarrow> bool" where
  "no_resource_held s = (\<not> pdeviceContext_held s \<and> \<not> pdevice_held s \<and> \<not> pdeviceHandle_held s)"

text \<open>The seconds a timer run lasted, when it came back.\<close>

definition session_seconds :: "driver \<Rightarrow> (fault + driver) option \<Rightarrow> nat option" where
  "session_seconds s r =
     (case r of
        Some (Inr s') \<Rightarrow> Some (clock s' - clock s)
      | _ \<Rightarrow> None)"

text \<open>The value the caller of a finished call reads, and the state the call leaves.\<close>

definition write_status :: "(fault + asynStatus \<times> driver) option \<Rightarrow> asynStatus option" where
  "write_status r = (case r of Some (Inr (status, s')) \<Rightarrow> Some status | _ \<Rightarrow> None)"

definition write_state :: "(fault + asynStatus \<times> driver) option \<Rightarrow> driver option" where
  "write_state r = (case r of Some (Inr (status, s')) \<Rightarrow> Some s' | _ \<Rightarrow> None)"

text \<open>
  Parameter numbers as areaDetector hands them out: the base class's parameters come
  first, the driver's own start at \<open>ADUVC_FIRST_PARAM\<close>.
\<close>

definition ids0 :: param_ids where
  "ids0 = \<lparr>ADAcquire = 12, ADStatus = 13, ADNumImages = 14, ADNumImagesCounter = 15,
            NDDataType = 3, ADUVC_OperatingMode = 60, ADUVC_Framerate = 61,
            ADUVC_FIRST_PARAM = 60\<rparr>"

text \<open>A camera that accepts every request, with nobody stopping the session.\<close>

definition camera_ok :: environment where
  "camera_ok = \<lparr>uvc_init_result = 0, uvc_find_device_result = (\<lambda>sn. 0), uvc_open_result = 0,
                 uvc_get_stream_ctrl_result = (\<lambda>fmt w h fps. 0), uvc_start_streaming_result = 0,
                 external_stop = (\<lambda>k. False), indeterminate = 0, indeterminate_status = 0,
                 ADDriver_writeInt32 = setIntegerParam\<rparr>"

text \<open>The same camera on a run where the caller of \<^verbatim>\<open>writeInt32\<close> reads 7.\<close>

definition camera_garbage :: environment where
  "camera_garbage = camera_ok\<lparr>indeterminate_status := 7\<rparr>"

text \<open>A camera that streams MJPEG at 640 by 480 at 10 frames a second and at no other rate.\<close>

definition camera_10fps :: environment where
  "camera_10fps =
     camera_ok\<lparr>uvc_get_stream_ctrl_result := (\<lambda>fmt w h fps. if fps = 10 then 0 else - 51)\<rparr>"

text \<open>No camera with the serial number asked for (\<^verbatim>\<open>UVC_ERROR_NO_DEVICE\<close> is \<open>-4\<close>).\<close>

definition camera_absent :: environment where
  "camera_absent = camera_ok\<lparr>uvc_find_device_result := (\<lambda>sn. - 4)\<rparr>"

text \<open>A camera that refuses the stream format (\<^verbatim>\<open>UVC_ERROR_INVALID_MODE\<close> is \<open>-51\<close>).\<close>

definition camera_refuses :: environment where
  "camera_refuses = camera_ok\<lparr>uvc_get_stream_ctrl_result := (\<lambda>fmt w h fps. - 51)\<rparr>"

text \<open>The driver before anything happened, all parameters 0.\<close>

definition driver0 :: driver where
  "driver0 = \<lparr>params = (\<lambda>i. 0), moving = 0, deviceStatus = 0, pdeviceContext_held = False,
               pdevice_held = False, pdeviceHandle_held = False, streaming = False,
               uvc_calls = [], reported = [], clock = 0, lock_depth = 0, delivered = []\<rparr>"

text \<open>A connected driver configured for a mode, a frame rate and a frame count.\<close>

definition configured :: "int32 \<Rightarrow> int32 \<Rightarrow> int32 \<Rightarrow> driver" where
  "configured mode rate n =
     driver0\<lparr>params := (\<lambda>i. if i = ADUVC_OperatingMode ids0 then mode
                           else if i = ADUVC_Framerate ids0 then rate
                           else if i = ADNumImages ids0 then n
                           else 0),
             pdeviceContext_held := True, pdevice_held := True, pdeviceHandle_held := True\<rparr>"

text \<open>The same driver while a session runs: the acquire parameter is 1.\<close>

definition acquiring0 :: driver where
  "acquiring0 =
     (configured 2 30 1)\<lparr>params := (params (configured 2 30 1))(ADAcquire ids0 := 1),
                          moving := 1, streaming := True\<rparr>"

text \<open>The same camera with another thread calling \<^verbatim>\<open>acquireStop\<close> during the fourth second.\<close>

definition camera_stopped :: environment where
  "camera_stopped = camera_ok\<lparr>external_stop := (\<lambda>k. k = 3)\<rparr>"

text \<open>A camera that negotiates the format and then refuses to stream (\<^verbatim>\<open>UVC_ERROR_BUSY\<close> is \<open>-6\<close>).\<close>

definition camera_busy :: environment where
  "camera_busy = camera_ok\<lparr>uvc_start_streaming_result := - 6\<rparr>"

text \<open>The value of a parameter after a finished write.\<close>

definition param_after :: "int \<Rightarrow> (fault + asynStatus \<times> driver) option \<Rightarrow> int32 option" where
  "param_after index r = (case write_state r of Some s' \<Rightarrow> Some (params s' index) | None \<Rightarrow> None)"

text \<open>The libuvc calls made so far, and whether the camera streams, after a finished call.\<close>

definition calls_after :: "(fault + int \<times> driver) option \<Rightarrow> uvc_call list option" where
  "calls_after r = (case write_state r of Some s' \<Rightarrow> Some (uvc_calls s') | None \<Rightarrow> None)"

definition streaming_after :: "(fault + int \<times> driver) option \<Rightarrow> bool option" where
  "streaming_after r = (case write_state r of Some s' \<Rightarrow> Some (streaming s') | None \<Rightarrow> None)"

text \<open>The state in which \<^verbatim>\<open>acquireStart\<close> calls the timer, when the camera accepted both requests.\<close>

definition stream_started :: "param_ids \<Rightarrow> environment \<Rightarrow> driver \<Rightarrow> driver" where
  "stream_started ix env s =
     s\<lparr>params := (params s)(ADNumImagesCounter ix := 0),
       uvc_calls := uvc_calls s @ [Uvc_get_stream_ctrl_format_size UVC_FRAME_FORMAT_MJPEG 640 480 30,
                                   Uvc_start_streaming],
       streaming := True,
       deviceStatus := uvc_start_streaming_result env,
       moving := 1\<rparr>"

text \<open>A frame of 640 by 480 as the camera sends it.\<close>

definition frame0 :: uvc_frame where
  "frame0 = \<lparr>frame_data = [255, 216, 255, 217], frame_width = 640, frame_height = 480,
              frame_format = UVC_FRAME_FORMAT_MJPEG, frame_sequence = 7,
              frame_capture_time = 1000\<rparr>"

declare snapshot_loop.simps [simp del]

section \<open>Facts about the inputs and the libraries\<close>

lemma configured_facts:
  "params (configured mode rate n) (ADUVC_OperatingMode ids0) = mode"
  "params (configured mode rate n) (ADUVC_Framerate ids0) = rate"
  "params (configured mode rate n) (ADNumImages ids0) = n"
  "params (configured mode rate n) (ADAcquire ids0) = 0"
  "clock (configured mode rate n) = 0"
  "uvc_calls (configured mode rate n) = []"
  "streaming (configured mode rate n) = False"
  "external_stop camera_ok k = False"
  by (simp_all add: configured_def ids0_def driver0_def camera_ok_def)

lemma ids0_facts:
  "ADAcquire ids0 = 12" "ADStatus ids0 = 13" "ADNumImages ids0 = 14" "ADNumImagesCounter ids0 = 15"
  "NDDataType ids0 = 3" "ADUVC_OperatingMode ids0 = 60" "ADUVC_Framerate ids0 = 61"
  "ADUVC_FIRST_PARAM ids0 = 60"
  by (simp_all add: ids0_def)

lemma camera_facts:
  "uvc_get_stream_ctrl_result camera_ok fmt w h fps = 0"
  "uvc_start_streaming_result camera_ok = 0"
  "uvc_get_stream_ctrl_result camera_stopped fmt w h fps = 0"
  "uvc_start_streaming_result camera_stopped = 0"
  "external_stop camera_stopped k = (k = 3)"
  "uvc_get_stream_ctrl_result camera_refuses fmt w h fps = - 51"
  "uvc_get_stream_ctrl_result camera_busy fmt w h fps = 0"
  "uvc_start_streaming_result camera_busy = - 6"
  "indeterminate camera_ok = 0"
  "indeterminate camera_stopped = 0"
  "indeterminate_status camera_ok = 0"
  "indeterminate_status camera_refuses = 0"
  "indeterminate_status camera_garbage = 7"
  "uvc_get_stream_ctrl_result camera_10fps fmt w h fps = (if fps = 10 then 0 else - 51)"
  by (simp_all add: camera_ok_def camera_stopped_def camera_refuses_def camera_busy_def
        camera_garbage_def camera_10fps_def)

lemma sleep1_quiet:
  "\<not> external_stop env (clock s) \<Longrightarrow> sleep1 ix env s = s\<lparr>clock := clock s + 1\<rparr>"
  by (simp add: sleep1_def Let_def)

section \<open>Connecting\<close>

text \<open>
  C1 (amended). When \<^verbatim>\<open>connectToDeviceUVC\<close> fails at the discovery step or at the open
  step, it reports the libuvc error of that step, returns \<open>False\<close> and has released
  nothing: the device context is still held, the device reference is held exactly
  when discovery succeeded (or it was held before), the handle is as before, and the
  only libuvc calls made are the acquiring ones up to the step that failed. The
  error reported, and left in \<^verbatim>\<open>deviceStatus\<close>, is the status of the failing step.
\<close>

theorem connect_failure_keeps_resources:
  assumes "0 \<le> uvc_init_result env"
    and "uvc_find_device_result env sn < 0 \<or> uvc_open_result env < 0"
  shows "fst (connectToDeviceUVC env sn s) = False
       \<and> pdeviceContext_held (snd (connectToDeviceUVC env sn s))
       \<and> pdevice_held (snd (connectToDeviceUVC env sn s))
           = (pdevice_held s \<or> 0 \<le> uvc_find_device_result env sn)
       \<and> pdeviceHandle_held (snd (connectToDeviceUVC env sn s)) = pdeviceHandle_held s
       \<and> uvc_calls (snd (connectToDeviceUVC env sn s))
           = uvc_calls s @ (if uvc_find_device_result env sn < 0
                             then [Uvc_init, Uvc_find_device sn]
                             else [Uvc_init, Uvc_find_device sn, Uvc_open])
       \<and> reported (snd (connectToDeviceUVC env sn s))
           = reported s @ [UVC_Error (if uvc_find_device_result env sn < 0
                                      then uvc_find_device_result env sn
                                      else uvc_open_result env) ''connectToDeviceUVC'']
       \<and> deviceStatus (snd (connectToDeviceUVC env sn s))
           = (if uvc_find_device_result env sn < 0
              then uvc_find_device_result env sn
              else uvc_open_result env)"
  using assms
  by (auto simp: connectToDeviceUVC_def uvc_init_def uvc_find_device_def uvc_open_def
        reportUVCError_def Let_def)

theorem connect_failure_keeps_resources_witness:
  "0 \<le> uvc_init_result camera_absent
   \<and> uvc_find_device_result camera_absent 0 < 0
   \<and> fst (connectToDeviceUVC camera_absent 0 driver0) = False
   \<and> pdeviceContext_held (snd (connectToDeviceUVC camera_absent 0 driver0))
   \<and> pdevice_held (snd (connectToDeviceUVC camera_absent 0 driver0)) = False
   \<and> uvc_calls (snd (connectToDeviceUVC camera_absent 0 driver0)) = [Uvc_init, Uvc_find_device 0]
   \<and> reported (snd (connectToDeviceUVC camera_absent 0 driver0))
        = [UVC_Error (- 4) ''connectToDeviceUVC'']
   \<and> deviceStatus (snd (connectToDeviceUVC camera_absent 0 driver0)) = - 4"
  using connect_failure_keeps_resources [of camera_absent 0 driver0]
  by (simp add: camera_absent_def camera_ok_def driver0_def)

text \<open>
  C1 as stated fails: with no camera of the serial number asked for, connect returns
  \<open>False\<close> and the device context stays held.
\<close>

theorem connect_failure_leak_counterexample:
  "fst (connectToDeviceUVC camera_absent 0 driver0) = False
   \<and> \<not> no_resource_held (snd (connectToDeviceUVC camera_absent 0 driver0))"
  by (simp add: connectToDeviceUVC_def uvc_init_def uvc_find_device_def reportUVCError_def
        no_resource_held_def camera_absent_def camera_ok_def driver0_def Let_def)

section \<open>The timer in snapshot mode\<close>

lemma snapshot_loop_quiet:
  "unat (b - c) = n \<Longrightarrow> moving s = 1 \<Longrightarrow> (\<forall>k. \<not> external_stop env (clock s + k)) \<Longrightarrow>
   snapshot_loop ix env b c s = s\<lparr>clock := clock s + n\<rparr>"
proof (induction n arbitrary: c s)
  case 0
  then have "b = c"
    by (simp add: unat_eq_0)
  then show ?case
    by (simp add: snapshot_loop.simps)
next
  case (Suc n)
  then have ne: "c \<noteq> b"
    by auto
  then have nz: "b - c \<noteq> 0"
    by auto
  have "unat ((b - c) - 1) = unat (b - c) - 1"
    using nz by (rule unat_minus_one)
  then have step: "unat (b - (c + 1)) = n"
    using Suc.prems(1) by (simp add: diff_diff_eq)
  have "\<not> external_stop env (clock s + 0)"
    using Suc.prems(3) by blast
  then have quiet: "sleep1 ix env s = s\<lparr>clock := clock s + 1\<rparr>"
    by (simp add: sleep1_quiet)
  have later: "\<not> external_stop env (clock (s\<lparr>clock := clock s + 1\<rparr>) + k)" for k
    using Suc.prems(3) [rule_format, of "Suc k"] by simp
  have "snapshot_loop ix env b (c + 1) (s\<lparr>clock := clock s + 1\<rparr>)
          = (s\<lparr>clock := clock s + 1\<rparr>)\<lparr>clock := clock (s\<lparr>clock := clock s + 1\<rparr>) + n\<rparr>"
    using step Suc.prems(2) later by (intro Suc.IH) auto
  then show ?case
    using ne Suc.prems(2) quiet by (subst snapshot_loop.simps) simp
qed

lemma c_div_positive:
  assumes "0 < sint n" and "0 < sint r"
  shows "c_div n r = Inr (word_of_int (sint n div sint r))"
proof -
  have "r \<noteq> 0"
    using assms(2) by auto
  moreover have "sint n sdiv sint r = sint n div sint r"
    using assms by (simp add: signed_divide_int_def)
  ultimately show ?thesis
    using assms by (simp add: c_div_def)
qed

lemma unat_quotient_succ:
  fixes n r :: int32
  assumes "0 < sint n" and "0 < sint r"
  shows "unat (word_of_int (sint n div sint r) + 1 :: int32) = nat (sint n div sint r) + 1"
proof -
  let ?q = "sint n div sint r"
  have q0: "0 \<le> ?q"
    using assms by (simp add: pos_imp_zdiv_nonneg_iff)
  have "?q \<le> sint n"
    using assms(1) by (rule int_div_le_self)
  moreover have "sint n < 2 ^ 31"
    using sint_lt [of n] by simp
  ultimately have q1: "?q < 2 ^ 31"
    by linarith
  have "(2::int) ^ 31 < 2 ^ 32"
    by simp
  then have "?q + 1 < 2 ^ 32"
    using q1 by linarith
  then have "nat (?q + 1) < nat (2 ^ 32)"
    using q0 by linarith
  then have bound: "Suc (nat ?q) < 2 ^ LENGTH(32)"
    using q0 by (simp add: nat_add_distrib)
  have "(word_of_int ?q + 1 :: int32) = word_of_nat (Suc (nat ?q))"
    using q0 by simp
  then have "word_of_nat (Suc (nat ?q)) = (word_of_int ?q + 1 :: int32)"
    by simp
  then have "unat (word_of_int ?q + 1 :: int32) = Suc (nat ?q)"
    using bound by (rule of_nat_inverse)
  then show ?thesis
    by simp
qed

lemma quotient_covers:
  fixes n r :: int
  assumes "0 < n" and "0 < r"
  shows "real_of_int n / real_of_int r \<le> real (nat (n div r) + 1)"
proof -
  have "0 \<le> n div r"
    using assms by (simp add: pos_imp_zdiv_nonneg_iff)
  then have "real (nat (n div r) + 1) = real_of_int (n div r) + 1"
    by simp
  moreover have "real_of_int n / real_of_int r - real_of_int (n div r) \<le> 1"
    by (rule real_of_int_div3)
  ultimately show ?thesis
    by linarith
qed

lemma snapshot_session_seconds:
  assumes mode: "params s (ADUVC_OperatingMode ix) = 1"
    and n: "0 < sint (params s (ADNumImages ix))"
    and r: "0 < sint (params s (ADUVC_Framerate ix))"
    and run: "moving s = 1"
    and quiet: "\<forall>k. \<not> external_stop env (clock s + k)"
  shows "session_seconds s (imageHandlerThread ix env s)
           = Some (nat (sint (params s (ADNumImages ix)) div sint (params s (ADUVC_Framerate ix))) + 1)"
proof -
  let ?n = "params s (ADNumImages ix)" and ?r = "params s (ADUVC_Framerate ix)"
  let ?q = "word_of_int (sint ?n div sint ?r) :: int32"
  have d: "c_div ?n ?r = Inr ?q"
    using n r by (rule c_div_positive)
  have u: "unat (?q + 1 - 0) = nat (sint ?n div sint ?r) + 1"
    using unat_quotient_succ [OF n r] by simp
  have l: "snapshot_loop ix env (?q + 1) 0 s = s\<lparr>clock := clock s + (nat (sint ?n div sint ?r) + 1)\<rparr>"
    using u run quiet by (rule snapshot_loop_quiet)
  have "imageHandlerThread ix env s
          = Some (Inr ((snapshot_loop ix env (?q + 1) 0 s)\<lparr>moving := 0\<rparr>))"
    using mode d by (simp add: imageHandlerThread_def getIntegerParam_def Let_def)
  then show ?thesis
    using l by (simp add: session_seconds_def)
qed

text \<open>
  C2 (amended). In snapshot mode, for a frame count \<open>n > 0\<close> and a frame rate
  \<open>r > 0\<close>, a session that nobody stops lasts \<open>n div r + 1\<close> seconds (the quotient
  of C's integer division, rounded down, plus one); for \<open>n = 30\<close>, \<open>r = 10\<close> that is
  4 seconds, and it is never less than \<open>n / r\<close>. The timer is entered with the flag
  set, as \<^verbatim>\<open>acquireStart\<close> leaves it. (At \<open>n = 2147483647\<close>, \<open>r = 1\<close> the bound
  \<^verbatim>\<open>seconds + 1\<close> wraps to the least \<^verbatim>\<open>int\<close>; the counter reaches it after
  \<open>2 ^ 31\<close> steps, which is \<open>n div r + 1\<close> still.)
\<close>

theorem snapshot_duration_floor:
  assumes "params s (ADUVC_OperatingMode ix) = 1"
    and "0 < sint (params s (ADNumImages ix))"
    and "0 < sint (params s (ADUVC_Framerate ix))"
    and "moving s = 1"
    and "\<forall>k. \<not> external_stop env (clock s + k)"
  shows "session_seconds s (imageHandlerThread ix env s)
           = Some (nat (sint (params s (ADNumImages ix)) div sint (params s (ADUVC_Framerate ix))) + 1)
       \<and> real_of_int (sint (params s (ADNumImages ix))) / real_of_int (sint (params s (ADUVC_Framerate ix)))
           \<le> real (nat (sint (params s (ADNumImages ix)) div sint (params s (ADUVC_Framerate ix))) + 1)"
  using assms by (simp only: snapshot_session_seconds quotient_covers simp_thms)

theorem snapshot_duration_floor_witness:
  "session_seconds ((configured 1 10 30)\<lparr>moving := 1\<rparr>)
       (imageHandlerThread ids0 camera_ok ((configured 1 10 30)\<lparr>moving := 1\<rparr>)) = Some 4
   \<and> real_of_int (sint (30 :: int32)) / real_of_int (sint (10 :: int32)) \<le> real 4"
  using snapshot_duration_floor [of "(configured 1 10 30)\<lparr>moving := 1\<rparr>" ids0 camera_ok]
  by (simp add: configured_facts)

text \<open>
  C2 as stated fails: 31 frames at 10 frames a second last 4 seconds, and
  \<^verbatim>\<open>ceil(31 / 10) + 1\<close> is 5.
\<close>

theorem snapshot_duration_ceil_counterexample:
  "session_seconds ((configured 1 10 31)\<lparr>moving := 1\<rparr>)
       (imageHandlerThread ids0 camera_ok ((configured 1 10 31)\<lparr>moving := 1\<rparr>)) = Some 4
   \<and> spec_snapshot_duration 31 10 = 5"
  using snapshot_session_seconds [of "(configured 1 10 31)\<lparr>moving := 1\<rparr>" ids0 camera_ok]
  by (simp add: configured_facts spec_snapshot_duration_def)

section \<open>The timer in continuous mode\<close>

lemma acquireStop_moving:
  "moving (acquireStop ix s) = 0"
  by (simp add: acquireStop_def setIntegerParam_def uvc_stop_streaming_def Let_def)

lemma acquireStop_clock:
  "clock (acquireStop ix s) = clock s"
  by (simp add: acquireStop_def setIntegerParam_def uvc_stop_streaming_def Let_def)

lemma sleep1_clock:
  "clock (sleep1 ix env s) = clock s + 1"
  by (simp add: sleep1_def acquireStop_clock Let_def)

lemma sleep1_moving_kept:
  "\<not> external_stop env (clock s) \<Longrightarrow> moving (sleep1 ix env s) = moving s"
  by (simp add: sleep1_def Let_def)

lemma continuous_loop_needs_stop:
  assumes "continuous_loop ix env s = Some s'"
  shows "moving s \<noteq> 1 \<or> (\<exists>k. external_stop env (clock s + k))"
  using assms
proof (induction rule: continuous_loop.raw_induct [rotated 1, consumes 1])
  case (1 loop ix env s s')
  show ?case
  proof (cases "moving s = 1")
    case False
    then show ?thesis by simp
  next
    case True
    with "1"(2) have "loop ix env (sleep1 ix env s) = Some s'"
      by simp
    then have "moving (sleep1 ix env s) \<noteq> 1 \<or> (\<exists>k. external_stop env (clock (sleep1 ix env s) + k))"
      by (rule "1"(1))
    then show ?thesis
    proof
      assume "moving (sleep1 ix env s) \<noteq> 1"
      with True have "external_stop env (clock s)"
        using sleep1_moving_kept [of env s ix] by auto
      then have "external_stop env (clock s + 0)"
        by simp
      then show ?thesis by blast
    next
      assume "\<exists>k. external_stop env (clock (sleep1 ix env s) + k)"
      then obtain k where "external_stop env (clock s + Suc k)"
        by (auto simp: sleep1_clock)
      then show ?thesis by blast
    qed
  qed
qed

lemma continuous_loop_diverges:
  assumes "moving s = 1" and "\<forall>k. \<not> external_stop env (clock s + k)"
  shows "continuous_loop ix env s = None"
proof (cases "continuous_loop ix env s")
  case None
  then show ?thesis .
next
  case (Some s')
  then have "moving s \<noteq> 1 \<or> (\<exists>k. external_stop env (clock s + k))"
    by (rule continuous_loop_needs_stop)
  with assms show ?thesis by blast
qed

lemma continuous_loop_returns:
  assumes "external_stop env (clock s + k)"
  shows "\<exists>s'. continuous_loop ix env s = Some s'"
  using assms
proof (induction k arbitrary: s)
  case 0
  show ?case
  proof (cases "moving s = 1")
    case False
    then show ?thesis by (subst continuous_loop.simps) simp
  next
    case True
    from 0 have "sleep1 ix env s = acquireStop ix (s\<lparr>clock := clock s + 1\<rparr>)"
      by (simp add: sleep1_def Let_def)
    then have "moving (sleep1 ix env s) \<noteq> 1"
      by (simp add: acquireStop_moving)
    then have "continuous_loop ix env (sleep1 ix env s) = Some (sleep1 ix env s)"
      by (subst continuous_loop.simps) simp
    with True show ?thesis by (subst continuous_loop.simps) simp
  qed
next
  case (Suc k)
  show ?case
  proof (cases "moving s = 1")
    case False
    then show ?thesis by (subst continuous_loop.simps) simp
  next
    case True
    from Suc.prems have "external_stop env (clock (sleep1 ix env s) + k)"
      by (simp add: sleep1_clock)
    then have "\<exists>s'. continuous_loop ix env (sleep1 ix env s) = Some s'"
      by (rule Suc.IH)
    with True show ?thesis by (subst continuous_loop.simps) simp
  qed
qed

lemma sleep1_funpow_quiet:
  assumes "\<forall>k. \<not> external_stop env (clock s + k)"
  shows "(sleep1 ix env ^^ n) s = s\<lparr>clock := clock s + n\<rparr>"
proof (induction n)
  case 0
  show ?case by simp
next
  case (Suc n)
  have "\<not> external_stop env (clock (s\<lparr>clock := clock s + n\<rparr>))"
    using assms by simp
  then show ?case
    using Suc by (simp add: sleep1_quiet)
qed

text \<open>
  C6. In continuous mode the timer does not come back as long as nobody stops the
  session: with the flag set and no external stop from now on, \<^verbatim>\<open>imageHandlerThread\<close>
  has no result, and after any number \<open>n\<close> of one-second sleeps the state is the
  starting state with \<open>n\<close> more seconds on the clock, the flag still 1.
\<close>

theorem continuous_never_self_terminates:
  assumes "params s (ADUVC_OperatingMode ix) = 2"
    and "moving s = 1"
    and "\<forall>k. \<not> external_stop env (clock s + k)"
  shows "imageHandlerThread ix env s = None
       \<and> (sleep1 ix env ^^ n) s = s\<lparr>clock := clock s + n\<rparr>
       \<and> moving ((sleep1 ix env ^^ n) s) = 1"
proof -
  have "continuous_loop ix env s = None"
    using assms(2,3) by (rule continuous_loop_diverges)
  then have "imageHandlerThread ix env s = None"
    using assms(1) by (simp add: imageHandlerThread_def getIntegerParam_def)
  moreover have "(sleep1 ix env ^^ n) s = s\<lparr>clock := clock s + n\<rparr>"
    using assms(3) by (rule sleep1_funpow_quiet)
  ultimately show ?thesis
    using assms(2) by simp
qed

theorem continuous_never_self_terminates_witness:
  "params ((configured 2 30 1)\<lparr>moving := 1\<rparr>) (ADUVC_OperatingMode ids0) = 2
   \<and> moving ((configured 2 30 1)\<lparr>moving := 1\<rparr>) = 1
   \<and> (\<forall>k. \<not> external_stop camera_ok k)
   \<and> imageHandlerThread ids0 camera_ok ((configured 2 30 1)\<lparr>moving := 1\<rparr>) = None
   \<and> moving ((sleep1 ids0 camera_ok ^^ 100) ((configured 2 30 1)\<lparr>moving := 1\<rparr>)) = 1
   \<and> clock ((sleep1 ids0 camera_ok ^^ 100) ((configured 2 30 1)\<lparr>moving := 1\<rparr>)) = 100"
  using continuous_never_self_terminates [of "(configured 2 30 1)\<lparr>moving := 1\<rparr>" ids0 camera_ok 100]
  by (simp add: configured_facts)

section \<open>Starting a session\<close>

lemma acquireStart_success_path:
  assumes "0 \<le> uvc_get_stream_ctrl_result env UVC_FRAME_FORMAT_MJPEG 640 480 30"
    and "0 \<le> uvc_start_streaming_result env"
  shows "acquireStart ix env s =
           (case imageHandlerThread ix env (stream_started ix env s) of
              None \<Rightarrow> None
            | Some (Inl f) \<Rightarrow> Some (Inl f)
            | Some (Inr s4) \<Rightarrow> Some (Inr (indeterminate env, s4)))"
  using assms
  by (simp add: acquireStart_def stream_started_def uvc_get_stream_ctrl_format_size_def
        uvc_start_streaming_def setIntegerParam_def Let_def)

lemma stream_started_facts:
  "clock (stream_started ix env s) = clock s"
  "moving (stream_started ix env s) = 1"
  "ADNumImagesCounter ix \<noteq> i \<Longrightarrow> params (stream_started ix env s) i = params s i"
  by (simp_all add: stream_started_def)

lemma continuous_start_none_iff:
  assumes "0 \<le> uvc_get_stream_ctrl_result env UVC_FRAME_FORMAT_MJPEG 640 480 30"
    and "0 \<le> uvc_start_streaming_result env"
    and "ADNumImagesCounter ix \<noteq> ADUVC_OperatingMode ix"
    and "params s (ADUVC_OperatingMode ix) = 2"
  shows "(acquireStart ix env s = None) = (imageHandlerThread ix env (stream_started ix env s) = None)
       \<and> (acquireStart ix env s = None) = (\<forall>k. \<not> external_stop env (clock s + k))"
proof -
  let ?t = "stream_started ix env s"
  have path: "acquireStart ix env s =
           (case imageHandlerThread ix env ?t of
              None \<Rightarrow> None
            | Some (Inl f) \<Rightarrow> Some (Inl f)
            | Some (Inr s4) \<Rightarrow> Some (Inr (indeterminate env, s4)))"
    using assms(1,2) by (rule acquireStart_success_path)
  have first: "(acquireStart ix env s = None) = (imageHandlerThread ix env ?t = None)"
    unfolding path by (simp split: option.splits sum.splits)
  have mode: "params ?t (ADUVC_OperatingMode ix) = 2"
    using assms(3,4) by (simp add: stream_started_facts)
  have timer: "(imageHandlerThread ix env ?t = None) = (continuous_loop ix env ?t = None)"
    using mode by (simp add: imageHandlerThread_def getIntegerParam_def split: option.splits)
  have "(continuous_loop ix env ?t = None) = (\<forall>k. \<not> external_stop env (clock s + k))"
  proof
    assume none: "continuous_loop ix env ?t = None"
    show "\<forall>k. \<not> external_stop env (clock s + k)"
    proof (intro allI notI)
      fix k
      assume "external_stop env (clock s + k)"
      then have "external_stop env (clock ?t + k)"
        by (simp add: stream_started_facts)
      then have "\<exists>s'. continuous_loop ix env ?t = Some s'"
        by (rule continuous_loop_returns)
      with none show False by simp
    qed
  next
    assume "\<forall>k. \<not> external_stop env (clock s + k)"
    then have "\<forall>k. \<not> external_stop env (clock ?t + k)"
      by (simp add: stream_started_facts)
    with stream_started_facts(2) show "continuous_loop ix env ?t = None"
      by (rule continuous_loop_diverges)
  qed
  with first timer show ?thesis by simp
qed

lemma continuous_loop_first_stop:
  assumes "moving s = 1"
    and "external_stop env (clock s + k)"
    and "\<forall>j<k. \<not> external_stop env (clock s + j)"
  shows "continuous_loop ix env s = Some (acquireStop ix (s\<lparr>clock := clock s + k + 1\<rparr>))"
  using assms
proof (induction k arbitrary: s)
  case 0
  then have "sleep1 ix env s = acquireStop ix (s\<lparr>clock := clock s + 1\<rparr>)"
    by (simp add: sleep1_def Let_def)
  moreover have "continuous_loop ix env (acquireStop ix (s\<lparr>clock := clock s + 1\<rparr>))
      = Some (acquireStop ix (s\<lparr>clock := clock s + 1\<rparr>))"
    by (subst continuous_loop.simps) (simp add: acquireStop_moving)
  ultimately show ?case
    using "0.prems"(1) by (subst continuous_loop.simps) simp
next
  case (Suc k)
  let ?t = "s\<lparr>clock := clock s + 1\<rparr>"
  have "\<not> external_stop env (clock s + 0)"
    using Suc.prems(3) by blast
  then have quiet: "sleep1 ix env s = ?t"
    by (simp add: sleep1_quiet)
  have later: "\<forall>j<k. \<not> external_stop env (clock ?t + j)"
  proof (intro allI impI)
    fix j
    assume "j < k"
    then have "Suc j < Suc k"
      by simp
    then have "\<not> external_stop env (clock s + Suc j)"
      using Suc.prems(3) by blast
    then show "\<not> external_stop env (clock ?t + j)"
      by simp
  qed
  have "continuous_loop ix env ?t = Some (acquireStop ix (?t\<lparr>clock := clock ?t + k + 1\<rparr>))"
    using Suc.prems(1,2) later by (intro Suc.IH) simp_all
  then have "continuous_loop ix env (sleep1 ix env s)
      = Some (acquireStop ix (s\<lparr>clock := clock s + Suc k + 1\<rparr>))"
    using quiet by simp
  then show ?case
    using Suc.prems(1) by (subst continuous_loop.simps) simp
qed

lemma continuous_start_returns:
  assumes "0 \<le> uvc_get_stream_ctrl_result env UVC_FRAME_FORMAT_MJPEG 640 480 30"
    and "0 \<le> uvc_start_streaming_result env"
    and "ADNumImagesCounter ix \<noteq> ADUVC_OperatingMode ix"
    and "params s (ADUVC_OperatingMode ix) = 2"
    and "external_stop env (clock s + k)"
    and "\<forall>j<k. \<not> external_stop env (clock s + j)"
  shows "acquireStart ix env s =
           Some (Inr (indeterminate env,
             (acquireStop ix ((stream_started ix env s)\<lparr>clock := clock s + k + 1\<rparr>))\<lparr>moving := 0\<rparr>))"
proof -
  let ?t = "stream_started ix env s"
  have mode: "params ?t (ADUVC_OperatingMode ix) = 2"
    using assms(3,4) by (simp add: stream_started_facts)
  have "continuous_loop ix env ?t = Some (acquireStop ix (?t\<lparr>clock := clock ?t + k + 1\<rparr>))"
    using assms(5,6) by (intro continuous_loop_first_stop) (simp_all add: stream_started_facts)
  then have "imageHandlerThread ix env ?t
      = Some (Inr ((acquireStop ix (?t\<lparr>clock := clock s + k + 1\<rparr>))\<lparr>moving := 0\<rparr>))"
    using mode by (simp add: imageHandlerThread_def getIntegerParam_def stream_started_facts)
  then show ?thesis
    using assms(1,2) by (simp add: acquireStart_success_path)
qed

text \<open>
  C9. When the camera accepts the format and the stream start, \<^verbatim>\<open>acquireStart\<close> runs
  the timer itself, in every operating mode: its result is the result of
  \<^verbatim>\<open>imageHandlerThread\<close> run on the state with the stream started, so it comes back
  when the timer does, with the state the timer leaves, and not at all when the timer
  does not. In continuous mode it does not come back exactly when no other thread
  ever stops the session; when the first stop falls in the sleep that starts \<open>k\<close>
  seconds after the start, it comes back at second \<open>k + 1\<close>, after that stop.
\<close>

theorem acquireStart_blocks_until_timer_exits:
  assumes "0 \<le> uvc_get_stream_ctrl_result env UVC_FRAME_FORMAT_MJPEG 640 480 30"
    and "0 \<le> uvc_start_streaming_result env"
  shows "acquireStart ix env s =
           (case imageHandlerThread ix env (stream_started ix env s) of
              None \<Rightarrow> None
            | Some (Inl f) \<Rightarrow> Some (Inl f)
            | Some (Inr s4) \<Rightarrow> Some (Inr (indeterminate env, s4)))
       \<and> (acquireStart ix env s = None) = (imageHandlerThread ix env (stream_started ix env s) = None)
       \<and> (ADNumImagesCounter ix \<noteq> ADUVC_OperatingMode ix \<and> params s (ADUVC_OperatingMode ix) = 2 \<longrightarrow>
            (acquireStart ix env s = None) = (\<forall>k. \<not> external_stop env (clock s + k)))
       \<and> (ADNumImagesCounter ix \<noteq> ADUVC_OperatingMode ix \<and> params s (ADUVC_OperatingMode ix) = 2
            \<and> external_stop env (clock s + k) \<and> (\<forall>j<k. \<not> external_stop env (clock s + j)) \<longrightarrow>
            acquireStart ix env s =
              Some (Inr (indeterminate env,
                (acquireStop ix ((stream_started ix env s)\<lparr>clock := clock s + k + 1\<rparr>))\<lparr>moving := 0\<rparr>)))"
proof (intro conjI impI)
  show path: "acquireStart ix env s =
           (case imageHandlerThread ix env (stream_started ix env s) of
              None \<Rightarrow> None
            | Some (Inl f) \<Rightarrow> Some (Inl f)
            | Some (Inr s4) \<Rightarrow> Some (Inr (indeterminate env, s4)))"
    using assms by (rule acquireStart_success_path)
  show "(acquireStart ix env s = None) = (imageHandlerThread ix env (stream_started ix env s) = None)"
    unfolding path by (simp split: option.splits sum.splits)
next
  assume "ADNumImagesCounter ix \<noteq> ADUVC_OperatingMode ix \<and> params s (ADUVC_OperatingMode ix) = 2"
  then show "(acquireStart ix env s = None) = (\<forall>k. \<not> external_stop env (clock s + k))"
    using assms continuous_start_none_iff by blast
next
  assume "ADNumImagesCounter ix \<noteq> ADUVC_OperatingMode ix \<and> params s (ADUVC_OperatingMode ix) = 2
            \<and> external_stop env (clock s + k) \<and> (\<forall>j<k. \<not> external_stop env (clock s + j))"
  then show "acquireStart ix env s =
              Some (Inr (indeterminate env,
                (acquireStop ix ((stream_started ix env s)\<lparr>clock := clock s + k + 1\<rparr>))\<lparr>moving := 0\<rparr>))"
    using assms continuous_start_returns by blast
qed

theorem acquireStart_blocks_until_timer_exits_witness:
  "0 \<le> uvc_get_stream_ctrl_result camera_ok UVC_FRAME_FORMAT_MJPEG 640 480 30
   \<and> 0 \<le> uvc_start_streaming_result camera_ok
   \<and> ADNumImagesCounter ids0 \<noteq> ADUVC_OperatingMode ids0
   \<and> params (configured 2 30 1) (ADUVC_OperatingMode ids0) = 2
   \<and> acquireStart ids0 camera_ok (configured 2 30 1) = None
   \<and> external_stop camera_stopped 3
   \<and> acquireStart ids0 camera_stopped (configured 2 30 1) =
        Some (Inr (0, (acquireStop ids0
           ((stream_started ids0 camera_stopped (configured 2 30 1))\<lparr>clock := 4\<rparr>))\<lparr>moving := 0\<rparr>))
   \<and> acquireStart ids0 camera_ok (configured 0 30 1) =
        Some (Inr (0, (stream_started ids0 camera_ok (configured 0 30 1))\<lparr>clock := 1, moving := 0\<rparr>))"
proof -
  have d: "ADNumImagesCounter ids0 \<noteq> ADUVC_OperatingMode ids0"
    by (simp add: ids0_def)
  have m: "params (stream_started ids0 camera_ok (configured 0 30 1)) (ADUVC_OperatingMode ids0) = 0"
    using d by (simp add: stream_started_facts configured_facts)
  have t: "imageHandlerThread ids0 camera_ok (stream_started ids0 camera_ok (configured 0 30 1))
      = Some (Inr ((stream_started ids0 camera_ok (configured 0 30 1))\<lparr>clock := 1, moving := 0\<rparr>))"
    using m
    by (simp add: imageHandlerThread_def getIntegerParam_def sleep1_def Let_def camera_facts
          stream_started_facts configured_facts)
  show ?thesis
    using d t
      acquireStart_blocks_until_timer_exits [where env = camera_ok and ix = ids0
        and s = "configured 2 30 1", THEN conjunct2, THEN conjunct2, THEN conjunct1]
      acquireStart_blocks_until_timer_exits [where env = camera_stopped and ix = ids0
        and s = "configured 2 30 1" and k = 3, THEN conjunct2, THEN conjunct2, THEN conjunct2]
      acquireStart_blocks_until_timer_exits [where env = camera_ok and ix = ids0
        and s = "configured 0 30 1", THEN conjunct1]
    by (simp add: configured_facts camera_facts)
qed

lemma single_shot_start:
  assumes "0 \<le> uvc_get_stream_ctrl_result env UVC_FRAME_FORMAT_MJPEG 640 480 30"
    and "0 \<le> uvc_start_streaming_result env"
    and "ADNumImagesCounter ix \<noteq> ADUVC_OperatingMode ix"
    and "params s (ADUVC_OperatingMode ix) = 0"
    and "\<not> external_stop env (clock s)"
  shows "acquireStart ix env s
     = Some (Inr (indeterminate env, (stream_started ix env s)\<lparr>clock := clock s + 1, moving := 0\<rparr>))"
proof -
  have "params (stream_started ix env s) (ADUVC_OperatingMode ix) = 0"
    using assms(3,4) by (simp add: stream_started_facts)
  then have "imageHandlerThread ix env (stream_started ix env s)
      = Some (Inr ((stream_started ix env s)\<lparr>clock := clock s + 1, moving := 0\<rparr>))"
    using assms(5)
    by (simp add: imageHandlerThread_def getIntegerParam_def sleep1_def Let_def stream_started_facts)
  then show ?thesis
    using assms(1,2) by (simp add: acquireStart_success_path)
qed

lemma single_shot_start_ok:
  "acquireStart ids0 camera_ok (configured 0 rate n)
     = Some (Inr (0, (stream_started ids0 camera_ok (configured 0 rate n))\<lparr>clock := 1, moving := 0\<rparr>))"
proof -
  have d: "ADNumImagesCounter ids0 \<noteq> ADUVC_OperatingMode ids0"
    by (simp add: ids0_def)
  have "acquireStart ids0 camera_ok (configured 0 rate n)
     = Some (Inr (indeterminate camera_ok,
          (stream_started ids0 camera_ok (configured 0 rate n))
            \<lparr>clock := clock (configured 0 rate n) + 1, moving := 0\<rparr>))"
    using _ _ d by (rule single_shot_start) (simp_all add: camera_facts configured_facts)
  then show ?thesis
    by (simp add: camera_facts configured_facts)
qed

lemma acquireStart_refused:
  assumes "uvc_get_stream_ctrl_result env UVC_FRAME_FORMAT_MJPEG 640 480 30 < 0"
  shows "acquireStart ix env s =
           Some (Inr (uvc_get_stream_ctrl_result env UVC_FRAME_FORMAT_MJPEG 640 480 30,
                      s\<lparr>uvc_calls := uvc_calls s
                             @ [Uvc_get_stream_ctrl_format_size UVC_FRAME_FORMAT_MJPEG 640 480 30],
                        deviceStatus := uvc_get_stream_ctrl_result env UVC_FRAME_FORMAT_MJPEG 640 480 30,
                        params := (params s)(ADAcquire ix := 0)\<rparr>))"
  using assms
  by (simp add: acquireStart_def uvc_get_stream_ctrl_format_size_def setIntegerParam_def Let_def)

lemma acquireStart_busy:
  assumes "0 \<le> uvc_get_stream_ctrl_result env UVC_FRAME_FORMAT_MJPEG 640 480 30"
    and "uvc_start_streaming_result env < 0"
  shows "acquireStart ix env s =
           Some (Inr (uvc_start_streaming_result env,
                      s\<lparr>params := (params s)(ADNumImagesCounter ix := 0, ADAcquire ix := 0),
                        uvc_calls := uvc_calls s
                             @ [Uvc_get_stream_ctrl_format_size UVC_FRAME_FORMAT_MJPEG 640 480 30,
                                Uvc_start_streaming],
                        deviceStatus := uvc_start_streaming_result env\<rparr>))"
  using assms
  by (simp add: acquireStart_def uvc_get_stream_ctrl_format_size_def uvc_start_streaming_def
        setIntegerParam_def Let_def)

text \<open>
  C5. The claim asks the negotiation to request the configured frame rate. The code
  does not: the request is \<^verbatim>\<open>UVC_FRAME_FORMAT_MJPEG, 640, 480, 30\<close> by literal
  arguments. With the frame rate parameter at 10 and a camera that streams at 10
  frames a second and at no other rate, the start asks for 30, is refused with
  \<open>-51\<close> and makes no other libuvc call; on a camera that accepts everything the
  same start asks for 30 and streams.
\<close>

theorem negotiation_ignores_frame_rate:
  "params (configured 0 10 1) (ADUVC_Framerate ids0) = 10
   \<and> uvc_get_stream_ctrl_result camera_10fps UVC_FRAME_FORMAT_MJPEG 640 480 10 = 0
   \<and> calls_after (acquireStart ids0 camera_10fps (configured 0 10 1))
        = Some [Uvc_get_stream_ctrl_format_size UVC_FRAME_FORMAT_MJPEG 640 480 30]
   \<and> write_status (acquireStart ids0 camera_10fps (configured 0 10 1)) = Some (- 51)
   \<and> calls_after (acquireStart ids0 camera_ok (configured 0 10 1))
        = Some [Uvc_get_stream_ctrl_format_size UVC_FRAME_FORMAT_MJPEG 640 480 30, Uvc_start_streaming]"
  by (simp add: single_shot_start_ok acquireStart_refused configured_facts camera_facts
        calls_after_def write_status_def write_state_def stream_started_def)

section \<open>The end of a session\<close>

lemma timer_expiry_leaves_stream:
  assumes "imageHandlerThread ix env s = Some (Inr s')"
    and "moving s = 1"
    and "\<forall>k. \<not> external_stop env (clock s + k)"
  shows "s' = s\<lparr>clock := clock s', moving := 0\<rparr>"
proof -
  let ?mode = "params s (ADUVC_OperatingMode ix)"
  have now: "\<not> external_stop env (clock s)"
    using assms(3) [rule_format, of 0] by simp
  consider "?mode = 0" | "?mode \<noteq> 0" "?mode = 1" | "?mode \<noteq> 0" "?mode \<noteq> 1" "?mode = 2"
    | "?mode \<noteq> 0" "?mode \<noteq> 1" "?mode \<noteq> 2"
    by blast
  then show ?thesis
  proof cases
    case 1
    with assms(1) have "s' = (sleep1 ix env s)\<lparr>moving := 0\<rparr>"
      by (simp add: imageHandlerThread_def getIntegerParam_def)
    then show ?thesis
      using now by (simp add: sleep1_quiet)
  next
    case 2
    with assms(1) obtain b where "s' = (snapshot_loop ix env b 0 s)\<lparr>moving := 0\<rparr>"
      by (auto simp: imageHandlerThread_def getIntegerParam_def Let_def split: sum.splits)
    moreover have "snapshot_loop ix env b 0 s = s\<lparr>clock := clock s + unat (b - 0)\<rparr>"
      using refl assms(2,3) by (rule snapshot_loop_quiet)
    ultimately show ?thesis by simp
  next
    case 3
    have "continuous_loop ix env s = None"
      using assms(2,3) by (rule continuous_loop_diverges)
    with 3 assms(1) show ?thesis
      by (simp add: imageHandlerThread_def getIntegerParam_def)
  next
    case 4
    with assms(1) have "s' = s\<lparr>moving := 0\<rparr>"
      by (simp add: imageHandlerThread_def getIntegerParam_def)
    then show ?thesis by simp
  qed
qed

lemma start_write_single_shot:
  "writeInt32 ids0 camera_ok (ADAcquire ids0) 1 (configured 0 30 1)
     = Some (Inr (indeterminate_status camera_ok,
          (stream_started ids0 camera_ok
             ((configured 0 30 1)\<lparr>params := (params (configured 0 30 1))(ADAcquire ids0 := 1)\<rparr>))
          \<lparr>clock := 1, moving := 0, deviceStatus := 0\<rparr>))"
proof -
  let ?s1 = "(configured 0 30 1)\<lparr>params := (params (configured 0 30 1))(ADAcquire ids0 := 1)\<rparr>"
  have d: "ADNumImagesCounter ids0 \<noteq> ADUVC_OperatingMode ids0"
    by (simp add: ids0_def)
  have m: "params ?s1 (ADUVC_OperatingMode ids0) = 0"
    by (simp add: configured_def ids0_def driver0_def)
  have "acquireStart ids0 camera_ok ?s1
     = Some (Inr (indeterminate camera_ok, (stream_started ids0 camera_ok ?s1)\<lparr>clock := clock ?s1 + 1, moving := 0\<rparr>))"
    using _ _ d m by (rule single_shot_start) (simp_all add: camera_facts configured_facts)
  then show ?thesis
    by (simp add: writeInt32_def getIntegerParam_def setIntegerParam_def asynPrint_status_def
          asynSuccess_def configured_facts camera_facts)
qed

text \<open>
  C3. The claim asks the timer to end a session the way a manual stop does. The
  code does not: a single-shot start on a camera that accepts everything comes back
  after one second with the camera still streaming, no \<^verbatim>\<open>uvc_stop_streaming\<close> call
  made and the acquire parameter still 1, where \<^verbatim>\<open>acquireStop\<close> on a running session
  stops the stream and sets the acquire parameter to 0.
\<close>

theorem timer_expiry_skips_stop_procedure:
  "calls_after (writeInt32 ids0 camera_ok (ADAcquire ids0) 1 (configured 0 30 1))
      = Some [Uvc_get_stream_ctrl_format_size UVC_FRAME_FORMAT_MJPEG 640 480 30, Uvc_start_streaming]
   \<and> streaming_after (writeInt32 ids0 camera_ok (ADAcquire ids0) 1 (configured 0 30 1)) = Some True
   \<and> param_after (ADAcquire ids0) (writeInt32 ids0 camera_ok (ADAcquire ids0) 1 (configured 0 30 1)) = Some 1
   \<and> uvc_calls (acquireStop ids0 acquiring0) = [Uvc_stop_streaming]
   \<and> streaming (acquireStop ids0 acquiring0) = False
   \<and> params (acquireStop ids0 acquiring0) (ADAcquire ids0) = 0"
proof -
  have "ADNumImagesCounter ids0 \<noteq> ADAcquire ids0"
    by (simp add: ids0_def)
  then have "calls_after (writeInt32 ids0 camera_ok (ADAcquire ids0) 1 (configured 0 30 1))
      = Some [Uvc_get_stream_ctrl_format_size UVC_FRAME_FORMAT_MJPEG 640 480 30, Uvc_start_streaming]
   \<and> streaming_after (writeInt32 ids0 camera_ok (ADAcquire ids0) 1 (configured 0 30 1)) = Some True
   \<and> param_after (ADAcquire ids0) (writeInt32 ids0 camera_ok (ADAcquire ids0) 1 (configured 0 30 1)) = Some 1"
    by (simp add: start_write_single_shot calls_after_def streaming_after_def param_after_def
          write_state_def stream_started_def configured_facts)
  moreover have "uvc_calls (acquireStop ids0 acquiring0) = [Uvc_stop_streaming]
   \<and> streaming (acquireStop ids0 acquiring0) = False
   \<and> params (acquireStop ids0 acquiring0) (ADAcquire ids0) = 0"
    by (simp add: acquireStop_def setIntegerParam_def uvc_stop_streaming_def Let_def
          acquiring0_def configured_facts)
  ultimately show ?thesis by simp
qed

section \<open>Writes to the acquire parameter\<close>

lemma fun_upd_same_value:
  "f x = v \<Longrightarrow> f(x := v) = f"
  by auto

lemma asynPrint_status_success:
  "asynPrint_status asynSuccess reason val s = s"
  by (simp add: asynPrint_status_def asynSuccess_def)

lemma acquiring0_facts:
  "params acquiring0 (ADAcquire ids0) = 1"
  "acquiring0\<lparr>params := (params acquiring0)(ADAcquire ids0 := 1)\<rparr> = acquiring0"
  by (simp_all add: acquiring0_def)

text \<open>
  C4 (amended). While the acquire parameter is not 0, a write of a non-zero value to
  it is ignored without a word: it stores that value and does nothing else. No
  libuvc call is made, no second session begins, nothing is printed at error level
  (the local \<^verbatim>\<open>status\<close> is \<^verbatim>\<open>asynSuccess\<close>), and a write of 1 while the parameter is 1
  leaves the state as it was. The status the caller reads is the indeterminate one
  of every write, whatever it is; the theorem says no more about it.
\<close>

theorem start_while_acquiring_ignored:
  assumes "params s (ADAcquire ix) \<noteq> 0" and "val \<noteq> 0"
  shows "writeInt32 ix env (ADAcquire ix) val s
           = Some (Inr (indeterminate_status env, s\<lparr>params := (params s)(ADAcquire ix := val)\<rparr>))"
  using assms
  by (simp add: writeInt32_def getIntegerParam_def setIntegerParam_def asynPrint_status_success)

theorem start_while_acquiring_ignored_witness:
  "params acquiring0 (ADAcquire ids0) \<noteq> 0
   \<and> writeInt32 ids0 camera_ok (ADAcquire ids0) 1 acquiring0 = Some (Inr (0, acquiring0))
   \<and> writeInt32 ids0 camera_garbage (ADAcquire ids0) 1 acquiring0 = Some (Inr (7, acquiring0))"
  using start_while_acquiring_ignored [of acquiring0 ids0 1 camera_ok]
    start_while_acquiring_ignored [of acquiring0 ids0 1 camera_garbage]
  by (simp add: acquiring0_facts camera_facts)

text \<open>
  C4 as stated fails: a start written during a session is not rejected. On a run
  where the caller reads 0 the status is \<^verbatim>\<open>asynSuccess\<close>, and the state is the one
  before the write: no error has been printed and no failure recorded.
\<close>

theorem start_while_acquiring_status_counterexample:
  "write_status (writeInt32 ids0 camera_ok (ADAcquire ids0) 1 acquiring0) = Some asynSuccess
   \<and> write_state (writeInt32 ids0 camera_ok (ADAcquire ids0) 1 acquiring0) = Some acquiring0
   \<and> reported acquiring0 = []"
proof -
  have "writeInt32 ids0 camera_ok (ADAcquire ids0) 1 acquiring0 = Some (Inr (0, acquiring0))"
    by (simp add: writeInt32_def getIntegerParam_def setIntegerParam_def acquiring0_facts
          asynPrint_status_success camera_facts)
  moreover have "reported acquiring0 = []"
    by (simp add: acquiring0_def configured_def driver0_def)
  ultimately show ?thesis
    by (simp add: asynSuccess_def write_status_def write_state_def)
qed

text \<open>
  C7. The claim asks an idle stop to return success. The code returns nothing: a
  stop written while the acquire parameter is 0 changes nothing at all (no
  \<^verbatim>\<open>uvc_stop_streaming\<close> call, nothing printed at error level), and the second of two
  stops in a row is such a write in whatever state the first one was written, but
  the status the caller reads is the indeterminate one, 7 on the run below.
\<close>

theorem stop_when_idle_is_noop:
  "(params s (ADAcquire ix) = 0 \<longrightarrow>
      writeInt32 ix env (ADAcquire ix) 0 s = Some (Inr (indeterminate_status env, s)))
   \<and> (\<exists>s1. writeInt32 ix env (ADAcquire ix) 0 s = Some (Inr (indeterminate_status env, s1))
          \<and> writeInt32 ix env (ADAcquire ix) 0 s1 = Some (Inr (indeterminate_status env, s1)))"
proof -
  have idle: "writeInt32 ix env (ADAcquire ix) 0 t = Some (Inr (indeterminate_status env, t))"
    if "params t (ADAcquire ix) = 0" for t
    using that
    by (simp add: writeInt32_def getIntegerParam_def setIntegerParam_def fun_upd_same_value
          asynPrint_status_success)
  have "\<exists>s1. writeInt32 ix env (ADAcquire ix) 0 s = Some (Inr (indeterminate_status env, s1))
          \<and> params s1 (ADAcquire ix) = 0"
    by (simp add: writeInt32_def getIntegerParam_def setIntegerParam_def acquireStop_def
          uvc_stop_streaming_def reportUVCError_def asynPrint_status_success Let_def)
  then show ?thesis
    using idle by blast
qed

theorem stop_when_idle_is_noop_witness:
  "params (configured 0 30 1) (ADAcquire ids0) = 0
   \<and> writeInt32 ids0 camera_garbage (ADAcquire ids0) 0 (configured 0 30 1)
        = Some (Inr (7, configured 0 30 1))
   \<and> write_status (writeInt32 ids0 camera_garbage (ADAcquire ids0) 0 (configured 0 30 1))
        \<noteq> Some asynSuccess"
  using stop_when_idle_is_noop [of "configured 0 30 1" ids0 camera_garbage]
  by (simp add: configured_facts camera_facts write_status_def asynSuccess_def)

lemma failed_start_resets_acquire:
  assumes "val \<noteq> 0" and "params s (ADAcquire ix) = 0"
    and "uvc_get_stream_ctrl_result env UVC_FRAME_FORMAT_MJPEG 640 480 30 < 0
         \<or> uvc_start_streaming_result env < 0"
  shows "param_after (ADAcquire ix) (writeInt32 ix env (ADAcquire ix) val s) = Some 0"
proof (cases "uvc_get_stream_ctrl_result env UVC_FRAME_FORMAT_MJPEG 640 480 30 < 0")
  case True
  then show ?thesis
    using assms(1,2)
    by (simp add: writeInt32_def getIntegerParam_def setIntegerParam_def acquireStart_refused
          reportUVCError_def asynPrint_status_success param_after_def write_state_def Let_def)
next
  case False
  then have "0 \<le> uvc_get_stream_ctrl_result env UVC_FRAME_FORMAT_MJPEG 640 480 30"
    and "uvc_start_streaming_result env < 0"
    using assms(3) by auto
  then show ?thesis
    using assms(1,2)
    by (simp add: writeInt32_def getIntegerParam_def setIntegerParam_def acquireStart_busy
          reportUVCError_def asynPrint_status_success param_after_def write_state_def Let_def)
qed

text \<open>
  C10 (amended). \<^verbatim>\<open>writeInt32\<close> stores the written value before it dispatches: a
  write to one of the driver's own parameters only stores; a write to a base class
  parameter hands the state with the value stored to \<^verbatim>\<open>ADDriver::writeInt32\<close>; a
  start or stop that is skipped (start while acquiring, stop while idle) only
  stores; a start that is dispatched runs \<^verbatim>\<open>acquireStart\<close> on the state with the
  value stored. A start that fails (the camera refuses the format or the stream) ends
  with the acquire parameter at 0, not at the written value. The status in each
  result is the indeterminate one the caller reads; where the base class method is
  called, the last print of \<^verbatim>\<open>writeInt32\<close> goes by the status of that method.
\<close>

theorem writeInt32_stores_before_dispatch:
  "(reason \<noteq> ADAcquire ix \<and> ADUVC_FIRST_PARAM ix \<le> reason \<longrightarrow>
       writeInt32 ix env reason val s
         = Some (Inr (indeterminate_status env, s\<lparr>params := (params s)(reason := val)\<rparr>)))
   \<and> (reason \<noteq> ADAcquire ix \<and> reason < ADUVC_FIRST_PARAM ix \<longrightarrow>
       writeInt32 ix env reason val s
         = Some (Inr (indeterminate_status env,
             asynPrint_status
               (fst (ADDriver_writeInt32 env reason val (s\<lparr>params := (params s)(reason := val)\<rparr>)))
               reason val
               (snd (ADDriver_writeInt32 env reason val (s\<lparr>params := (params s)(reason := val)\<rparr>))))))
   \<and> ((val \<noteq> 0 \<and> params s (ADAcquire ix) \<noteq> 0) \<or> (val = 0 \<and> params s (ADAcquire ix) = 0) \<longrightarrow>
       writeInt32 ix env (ADAcquire ix) val s
         = Some (Inr (indeterminate_status env, s\<lparr>params := (params s)(ADAcquire ix := val)\<rparr>)))
   \<and> (val \<noteq> 0 \<and> params s (ADAcquire ix) = 0 \<longrightarrow>
       writeInt32 ix env (ADAcquire ix) val s
         = (case acquireStart ix env (s\<lparr>params := (params s)(ADAcquire ix := val)\<rparr>) of
              None \<Rightarrow> None
            | Some (Inl f) \<Rightarrow> Some (Inl f)
            | Some (Inr (r, s2)) \<Rightarrow>
                Some (Inr (indeterminate_status env,
                  if r < 0 then reportUVCError r ''writeInt32'' (s2\<lparr>deviceStatus := r\<rparr>)
                  else s2\<lparr>deviceStatus := r\<rparr>))))
   \<and> (val \<noteq> 0 \<and> params s (ADAcquire ix) = 0
        \<and> (uvc_get_stream_ctrl_result env UVC_FRAME_FORMAT_MJPEG 640 480 30 < 0
             \<or> uvc_start_streaming_result env < 0) \<longrightarrow>
       param_after (ADAcquire ix) (writeInt32 ix env (ADAcquire ix) val s) = Some 0)"
proof (intro conjI impI)
  assume "reason \<noteq> ADAcquire ix \<and> ADUVC_FIRST_PARAM ix \<le> reason"
  then show "writeInt32 ix env reason val s
         = Some (Inr (indeterminate_status env, s\<lparr>params := (params s)(reason := val)\<rparr>))"
    by (simp add: writeInt32_def setIntegerParam_def asynPrint_status_success)
next
  assume "reason \<noteq> ADAcquire ix \<and> reason < ADUVC_FIRST_PARAM ix"
  then show "writeInt32 ix env reason val s
         = Some (Inr (indeterminate_status env,
             asynPrint_status
               (fst (ADDriver_writeInt32 env reason val (s\<lparr>params := (params s)(reason := val)\<rparr>)))
               reason val
               (snd (ADDriver_writeInt32 env reason val (s\<lparr>params := (params s)(reason := val)\<rparr>)))))"
    by (simp add: writeInt32_def setIntegerParam_def split: prod.splits)
next
  assume "(val \<noteq> 0 \<and> params s (ADAcquire ix) \<noteq> 0) \<or> (val = 0 \<and> params s (ADAcquire ix) = 0)"
  then show "writeInt32 ix env (ADAcquire ix) val s
         = Some (Inr (indeterminate_status env, s\<lparr>params := (params s)(ADAcquire ix := val)\<rparr>))"
    by (auto simp: writeInt32_def getIntegerParam_def setIntegerParam_def asynPrint_status_success)
next
  assume "val \<noteq> 0 \<and> params s (ADAcquire ix) = 0"
  then show "writeInt32 ix env (ADAcquire ix) val s
         = (case acquireStart ix env (s\<lparr>params := (params s)(ADAcquire ix := val)\<rparr>) of
              None \<Rightarrow> None
            | Some (Inl f) \<Rightarrow> Some (Inl f)
            | Some (Inr (r, s2)) \<Rightarrow>
                Some (Inr (indeterminate_status env,
                  if r < 0 then reportUVCError r ''writeInt32'' (s2\<lparr>deviceStatus := r\<rparr>)
                  else s2\<lparr>deviceStatus := r\<rparr>)))"
    by (simp add: writeInt32_def getIntegerParam_def setIntegerParam_def Let_def
          asynPrint_status_success split: option.splits sum.splits prod.splits)
next
  assume "val \<noteq> 0 \<and> params s (ADAcquire ix) = 0
        \<and> (uvc_get_stream_ctrl_result env UVC_FRAME_FORMAT_MJPEG 640 480 30 < 0
             \<or> uvc_start_streaming_result env < 0)"
  then show "param_after (ADAcquire ix) (writeInt32 ix env (ADAcquire ix) val s) = Some 0"
    using failed_start_resets_acquire by blast
qed

theorem writeInt32_stores_before_dispatch_witness:
  "writeInt32 ids0 camera_ok (ADUVC_Framerate ids0) 15 (configured 0 30 1)
      = Some (Inr (0,
          (configured 0 30 1)\<lparr>params := (params (configured 0 30 1))(ADUVC_Framerate ids0 := 15)\<rparr>))
   \<and> writeInt32 ids0 camera_ok (ADNumImages ids0) 5 (configured 0 30 1)
      = Some (Inr (0,
          (configured 0 30 1)\<lparr>params := (params (configured 0 30 1))(ADNumImages ids0 := 5)\<rparr>))
   \<and> writeInt32 ids0 camera_ok (ADAcquire ids0) 1 acquiring0 = Some (Inr (0, acquiring0))
   \<and> param_after (ADAcquire ids0)
        (writeInt32 ids0 camera_refuses (ADAcquire ids0) 1 (configured 0 30 1)) = Some 0"
proof -
  have ids: "ADUVC_Framerate ids0 \<noteq> ADAcquire ids0" "ADUVC_FIRST_PARAM ids0 \<le> ADUVC_Framerate ids0"
    "ADNumImages ids0 \<noteq> ADAcquire ids0" "ADNumImages ids0 < ADUVC_FIRST_PARAM ids0"
    by (simp_all add: ids0_def)
  have base: "ADDriver_writeInt32 camera_ok = setIntegerParam"
    by (simp add: camera_ok_def)
  show ?thesis
    using ids
      writeInt32_stores_before_dispatch [where reason = "ADUVC_Framerate ids0" and ix = ids0
        and env = camera_ok and val = 15 and s = "configured 0 30 1", THEN conjunct1]
      writeInt32_stores_before_dispatch [where reason = "ADNumImages ids0" and ix = ids0
        and env = camera_ok and val = 5 and s = "configured 0 30 1", THEN conjunct2, THEN conjunct1]
      writeInt32_stores_before_dispatch [where ix = ids0 and env = camera_ok and val = 1
        and s = acquiring0, THEN conjunct2, THEN conjunct2, THEN conjunct1]
      writeInt32_stores_before_dispatch [where ix = ids0 and env = camera_refuses and val = 1
        and s = "configured 0 30 1", THEN conjunct2, THEN conjunct2, THEN conjunct2, THEN conjunct2]
    by (simp add: base setIntegerParam_def asynPrint_status_success acquiring0_facts
          configured_facts camera_facts)
qed

text \<open>
  C10 as stated fails: after a start of value 1 that the camera refuses, the acquire
  parameter holds 0.
\<close>

theorem failed_start_value_counterexample:
  "param_after (ADAcquire ids0)
     (writeInt32 ids0 camera_refuses (ADAcquire ids0) 1 (configured 0 30 1)) = Some 0"
  using failed_start_resets_acquire [of 1 "configured 0 30 1" ids0 camera_refuses]
  by (simp add: configured_facts camera_facts)

section \<open>The frame callback\<close>

text \<open>
  C8. The claim asks for an image buffer per frame. The code produces none: for a
  640 by 480 frame during a session, \<^verbatim>\<open>newFrameCallback\<close> leaves the state as it was
  but for the port lock, which it takes and keeps; nothing is delivered.
\<close>

theorem newFrameCallback_delivers_nothing:
  "newFrameCallback ids0 frame0 acquiring0 = acquiring0\<lparr>lock_depth := 1\<rparr>
   \<and> delivered (newFrameCallback ids0 frame0 acquiring0) = []"
  by (simp add: newFrameCallback_def Let_def acquiring0_def configured_def driver0_def)

end
